theory Spec2Isabelle
  imports Main "HOL-Library.Word"
begin

section \<open>Bytes, the helper macros and the \<open>conv\<close> union\<close>

type_synonym byte = "8 word"

text \<open>helpers.h++: the field widths in bytes.\<close>

definition WORD :: nat where "WORD = 2"
definition DWORD :: nat where "DWORD = 4"
definition QWORD :: nat where "QWORD = 8"

text \<open>
  \<open>union conv { T value; uint8_t data[sizeof(T)]; }\<close> lays an integer over its bytes in the
  byte order of the host. The order is not fixed by the source, so it is a parameter.
\<close>

datatype endian = LittleEndian | BigEndian

fun le_bytes :: "nat \<Rightarrow> nat \<Rightarrow> byte list" where
  "le_bytes 0 v = []"
| "le_bytes (Suc n) v = of_nat (v mod 256) # le_bytes n (v div 256)"

fun le_value :: "byte list \<Rightarrow> nat" where
  "le_value [] = 0"
| "le_value (b # bs) = unat b + 256 * le_value bs"

text \<open>\<open>conv_data e n v\<close>: the array \<open>data\<close> of a \<open>conv\<close> of \<open>n\<close> bytes whose \<open>value\<close> is \<open>v\<close>.\<close>

definition conv_data :: "endian \<Rightarrow> nat \<Rightarrow> nat \<Rightarrow> byte list" where
  "conv_data e n v = (case e of LittleEndian \<Rightarrow> le_bytes n v | BigEndian \<Rightarrow> rev (le_bytes n v))"

text \<open>\<open>conv_value e bs\<close>: the \<open>value\<close> of a \<open>conv\<close> whose array \<open>data\<close> holds \<open>bs\<close>.\<close>

definition conv_value :: "endian \<Rightarrow> byte list \<Rightarrow> nat" where
  "conv_value e bs = (case e of LittleEndian \<Rightarrow> le_value bs | BigEndian \<Rightarrow> le_value (rev bs))"

section \<open>The file stream\<close>

text \<open>
  \<open>std::fstream\<close> over a binary file: the bytes of the file, the joint get/put position of
  the file buffer, and the two state bits the code can meet. An operation on a stream that
  is not good does nothing but set \<open>failbit\<close>.
\<close>

record fstream =
  bytes :: "byte list"
  pos :: nat
  eofbit :: bool
  failbit :: bool

definition good :: "fstream \<Rightarrow> bool" where
  "good s = (\<not> eofbit s \<and> \<not> failbit s)"

text \<open>\<open>seekg\<close> clears \<open>eofbit\<close> first and moves the position unless the stream has failed.\<close>

definition seekg :: "nat \<Rightarrow> fstream \<Rightarrow> fstream" where
  "seekg n s = (if failbit s then s\<lparr>eofbit := False\<rparr> else s\<lparr>pos := n, eofbit := False\<rparr>)"

definition seekp :: "nat \<Rightarrow> fstream \<Rightarrow> fstream" where
  "seekp n s = (if failbit s then s else s\<lparr>pos := n\<rparr>)"

text \<open>
  \<open>read(buf, n)\<close>: the bytes extracted (fewer than \<open>n\<close> at the end of the file, which sets
  both bits) and the stream afterwards.
\<close>

definition sread :: "nat \<Rightarrow> fstream \<Rightarrow> byte list \<times> fstream" where
  "sread n s =
     (if \<not> good s then ([], s\<lparr>failbit := True\<rparr>)
      else let got = take n (drop (pos s) (bytes s));
               s' = s\<lparr>pos := pos s + length got\<rparr>
           in if length got < n then (got, s'\<lparr>eofbit := True, failbit := True\<rparr>)
              else (got, s'))"

text \<open>The destination array after \<open>read\<close>: the bytes extracted over its old contents.\<close>

definition fill :: "byte list \<Rightarrow> byte list \<Rightarrow> byte list" where
  "fill old got = got @ drop (length got) old"

text \<open>\<open>get()\<close>: the next byte as an \<open>int\<close>, or \<open>EOF\<close> (-1).\<close>

definition sget :: "fstream \<Rightarrow> int \<times> fstream" where
  "sget s =
     (if \<not> good s then (- 1, s\<lparr>failbit := True\<rparr>)
      else if pos s < length (bytes s) then (uint (bytes s ! pos s), s\<lparr>pos := Suc (pos s)\<rparr>)
      else (- 1, s\<lparr>eofbit := True, failbit := True\<rparr>))"

text \<open>
  \<open>write(buf, n)\<close> overwrites from the position on and extends the file; a position past
  the end leaves a gap of zero bytes.
\<close>

definition swrite :: "byte list \<Rightarrow> fstream \<Rightarrow> fstream" where
  "swrite bs s =
     (if \<not> good s then s\<lparr>failbit := True\<rparr>
      else s\<lparr>bytes := take (pos s) (bytes s @ replicate (pos s - length (bytes s)) 0)
                        @ bs @ drop (pos s + length bs) (bytes s),
              pos := pos s + length bs\<rparr>)"

definition sput :: "byte \<Rightarrow> fstream \<Rightarrow> fstream" where
  "sput b s = swrite [b] s"

section \<open>static.h++: the data model\<close>

datatype SizeMode = SizeMode16 | SizeMode32 | SizeMode64

datatype Mode = ModeRead | ModeAppend | ModeCreate

text \<open>The enumerators' values, for the casts \<open>(char)sizeMode\<close> and \<open>(SizeMode)stream->get()\<close>.\<close>

fun SizeMode_value :: "SizeMode \<Rightarrow> nat" where
  "SizeMode_value SizeMode16 = 0"
| "SizeMode_value SizeMode32 = 1"
| "SizeMode_value SizeMode64 = 2"

definition SizeMode_cast :: "int \<Rightarrow> SizeMode option" where
  "SizeMode_cast i =
     (if i = 0 then Some SizeMode16 else if i = 1 then Some SizeMode32
      else if i = 2 then Some SizeMode64 else None)"

text \<open>
  \<open>FileInfo\<close> and \<open>EntryHeader\<close>; names are byte strings. The field \<open>size\<close> is written
  \<open>size'\<close> here.
\<close>

record FileInfo =
  name :: "byte list"
  size' :: "64 word"
  crc :: "32 word"
  offset :: "64 word"
  dataOffset :: "64 word"

record EntryHeader =
  name :: "byte list"
  crc :: "32 word"
  dataSize :: "64 word"

text \<open>The bit-field struct inside \<open>union Flags\<close>; each field is one bit wide.\<close>

record FlagsStruct =
  verbose :: bool
  onlyNames :: bool
  ignoreErrors :: bool
  writeCrc :: bool
  checks :: bool

text \<open>\<open>InvalidNameSizeException\<close> carries the size of the rejected name.\<close>

datatype exception = InvalidNameSizeException nat

text \<open>The members of class \<open>StaticArchive\<close>.\<close>

record StaticArchive =
  generalPurposeField :: "32 word"
  checks :: bool
  stream :: fstream
  sizeMode :: SizeMode
  mode :: Mode
  fileCount :: "64 word"
  writeCrc :: bool
  closed :: bool

section \<open>static.cpp: the accessors\<close>

definition getSizeMode :: "StaticArchive \<Rightarrow> SizeMode" where
  "getSizeMode a = sizeMode a"

definition getFileCount :: "StaticArchive \<Rightarrow> 64 word" where
  "getFileCount a = fileCount a"

definition getWriteCrc :: "StaticArchive \<Rightarrow> bool" where
  "getWriteCrc a = StaticArchive.writeCrc a"

text \<open>
  The \<open>switch\<close> returns in each of the three cases; the \<open>return 0\<close> after it is reached by
  no enumerator.
\<close>

definition getMaxFilesize :: "StaticArchive \<Rightarrow> 64 word" where
  "getMaxFilesize a =
     (case sizeMode a of
        SizeMode16 \<Rightarrow> 0xffff
      | SizeMode32 \<Rightarrow> 0xffffffff
      | SizeMode64 \<Rightarrow> 0xffffffffffffffff)"

section \<open>static.cpp: the constructors\<close>

text \<open>
  \<open>Flags flags_{flags}\<close> is aggregate initialisation of a union: the initialiser goes to the
  first member, the struct \<open>f\<close>, and by brace elision to the first field of \<open>f\<close>. So
  \<open>verbose\<close>, one bit wide, keeps the lowest bit of the byte, the fields without an
  initialiser are zero, and the member \<open>v\<close> is never written.
\<close>

definition Flags_init :: "byte \<Rightarrow> FlagsStruct" where
  "Flags_init flags =
     \<lparr>verbose = bit flags 0, onlyNames = False, ignoreErrors = False,
      writeCrc = False, checks = False\<rparr>"

text \<open>
  The default member initialisers, applied to the storage \<open>raw\<close> the object is built in;
  \<open>generalPurposeField\<close>, \<open>checks\<close> and \<open>stream\<close> have none and keep what \<open>raw\<close> holds.
\<close>

definition member_init :: "StaticArchive \<Rightarrow> StaticArchive" where
  "member_init raw =
     raw\<lparr>sizeMode := SizeMode64, mode := ModeRead, fileCount := 0, writeCrc := True,
         closed := False\<rparr>"

text \<open>
  \<open>new std::fstream(path, binary | in | out)\<close> on a file system \<open>fs\<close>: an existing file is
  opened at position 0, a missing one leaves the stream failed.
\<close>

definition open_fstream :: "(string \<rightharpoonup> byte list) \<Rightarrow> string \<Rightarrow> fstream" where
  "open_fstream fs path =
     (case fs path of
        Some bs \<Rightarrow> \<lparr>bytes = bs, pos = 0, eofbit = False, failbit = False\<rparr>
      | None \<Rightarrow> \<lparr>bytes = [], pos = 0, eofbit = False, failbit = True\<rparr>)"

definition setup_handle ::
  "(string \<rightharpoonup> byte list) \<Rightarrow> StaticArchive \<Rightarrow> string \<Rightarrow> Mode \<Rightarrow> SizeMode \<Rightarrow> StaticArchive" where
  "setup_handle fs this path mode' sizeMode' =
     this\<lparr>stream := open_fstream fs path, mode := mode', sizeMode := sizeMode'\<rparr>"

text \<open>\<open>StaticArchive(path)\<close>, \<open>StaticArchive(path, mode)\<close>, \<open>StaticArchive(path, mode, sizeMode)\<close>.\<close>

definition StaticArchive_path ::
  "(string \<rightharpoonup> byte list) \<Rightarrow> StaticArchive \<Rightarrow> string \<Rightarrow> StaticArchive" where
  "StaticArchive_path fs raw path = setup_handle fs (member_init raw) path ModeRead SizeMode64"

definition StaticArchive_path_mode ::
  "(string \<rightharpoonup> byte list) \<Rightarrow> StaticArchive \<Rightarrow> string \<Rightarrow> Mode \<Rightarrow> StaticArchive" where
  "StaticArchive_path_mode fs raw path m = setup_handle fs (member_init raw) path m SizeMode64"

definition StaticArchive_path_mode_size ::
  "(string \<rightharpoonup> byte list) \<Rightarrow> StaticArchive \<Rightarrow> string \<Rightarrow> Mode \<Rightarrow> SizeMode \<Rightarrow> StaticArchive" where
  "StaticArchive_path_mode_size fs raw path m sm = setup_handle fs (member_init raw) path m sm"

text \<open>\<open>StaticArchive(path, mode, sizeMode, flags)\<close>.\<close>

definition StaticArchive_path_flags ::
  "(string \<rightharpoonup> byte list) \<Rightarrow> StaticArchive \<Rightarrow> string \<Rightarrow> Mode \<Rightarrow> SizeMode \<Rightarrow> byte
     \<Rightarrow> StaticArchive" where
  "StaticArchive_path_flags fs raw path m sm flags =
     (let this = setup_handle fs (member_init raw) path m sm;
          flags' = Flags_init flags
      in this\<lparr>checks := FlagsStruct.checks flags', writeCrc := FlagsStruct.writeCrc flags'\<rparr>)"

text \<open>\<open>StaticArchive(stream, mode, sizeMode, flags)\<close>.\<close>

definition StaticArchive_stream_flags ::
  "StaticArchive \<Rightarrow> fstream \<Rightarrow> Mode \<Rightarrow> SizeMode \<Rightarrow> byte \<Rightarrow> StaticArchive" where
  "StaticArchive_stream_flags raw strm m sm flags =
     (let this = (member_init raw)\<lparr>mode := m, stream := strm, sizeMode := sm\<rparr>;
          flags' = Flags_init flags
      in this\<lparr>checks := FlagsStruct.checks flags', writeCrc := FlagsStruct.writeCrc flags'\<rparr>)"

section \<open>static.cpp: append\<close>

text \<open>
  Both overloads of \<open>append\<close> have the empty body \<open>{}\<close>: nothing is written, no member
  changes, and control leaves the function without a \<open>return\<close>, so no \<open>FileInfo\<close> comes
  back (\<open>None\<close>).
\<close>

definition append ::
  "StaticArchive \<Rightarrow> byte list \<Rightarrow> byte list \<Rightarrow> FileInfo option \<times> StaticArchive" where
  "append a nm data = (None, a)"

text \<open>\<open>n\<close> calls of \<open>append\<close>, one after the other.\<close>

fun appends :: "StaticArchive \<Rightarrow> (byte list \<times> byte list) list \<Rightarrow> StaticArchive" where
  "appends a [] = a"
| "appends a ((nm, data) # rest) = appends (snd (append a nm data)) rest"

section \<open>read\<close>

text \<open>
  Modelled from the spec: \<open>read\<close>, which static.h++ declares and no source file defines.
  It seeks to \<open>dataOffset\<close> and copies exactly \<open>size\<close> bytes; with checks enabled it
  recomputes the checksum over the bytes read and fails with \<open>CrcMismatch\<close> when it differs
  from the stored one. A closed handle fails with \<open>ArchiveClosed\<close>, a file too short for
  \<open>size\<close> bytes with \<open>IOFailure\<close>. The checksum is an external pure function.
\<close>

datatype error = ArchiveClosed | IOFailure | CrcMismatch

definition read ::
  "(byte list \<Rightarrow> 32 word) \<Rightarrow> StaticArchive \<Rightarrow> FileInfo \<Rightarrow> error + byte list" where
  "read checksum a file =
     (if closed a then Inl ArchiveClosed
      else
        let out = take (unat (size' file)) (drop (unat (dataOffset file)) (bytes (stream a)))
        in if length out < unat (size' file) then Inl IOFailure
           else if StaticArchive.checks a \<and> checksum out \<noteq> FileInfo.crc file then Inl CrcMismatch
           else Inr out)"

section \<open>static.cpp: the signature block\<close>

definition STATIC_MAGIC :: "byte list" where
  "STATIC_MAGIC = [0x91, 0xde, 0xee, 0x9c, 0x80, 0x5c, 0x23, 0xe6]"

text \<open>
  \<open>strncmp\<close>: at most \<open>n\<close> bytes are compared as unsigned values, and the comparison ends
  after a zero byte. Only the sign of the result is fixed by C; the difference of the first
  unequal bytes is used here. Both arrays hold \<open>n\<close> elements where the code calls it, so
  the last equation is reached with \<open>n = 0\<close> only.
\<close>

fun strncmp :: "byte list \<Rightarrow> byte list \<Rightarrow> nat \<Rightarrow> int" where
  "strncmp (a # as) (b # bs) (Suc n) =
     (if a \<noteq> b then uint a - uint b else if a = 0 then 0 else strncmp as bs n)"
| "strncmp _ _ _ = 0"

text \<open>
  \<open>checkSignature\<close>. The local array \<open>buffer\<close> has no initialiser: \<open>buffer0\<close> stands for
  what it holds before \<open>read\<close>. The \<open>int\<close> of \<open>strncmp\<close> is returned as \<open>bool\<close>, true when
  it is not 0.
\<close>

definition checkSignature :: "(nat \<Rightarrow> byte) \<Rightarrow> StaticArchive \<Rightarrow> bool \<times> StaticArchive" where
  "checkSignature buffer0 a =
     (let s0 = seekg 0 (stream a);
          magic = STATIC_MAGIC;
          (got, s1) = sread QWORD s0;
          buffer = fill (map buffer0 [0..<QWORD]) got
      in (strncmp magic buffer QWORD \<noteq> 0, a\<lparr>stream := s1\<rparr>))"

text \<open>
  \<open>loadSignature\<close>. The second \<open>read\<close> stores its eight bytes through \<open>gp.data\<close>, after
  \<open>gp.value\<close> has been copied out; \<open>fc\<close> keeps the zero it was initialised with. A size-mode
  byte that is no enumerator would leave the handle outside the enumeration, where no
  \<open>case\<close> of the later switches matches; the model stops there with \<open>None\<close>.
\<close>

definition loadSignature :: "endian \<Rightarrow> StaticArchive \<Rightarrow> StaticArchive option" where
  "loadSignature e a =
     (let s0 = seekg QWORD (stream a);
          (got_gp, s1) = sread DWORD s0;
          gp = fill (replicate DWORD 0) got_gp;
          generalPurposeField' = conv_value e gp;
          fc = replicate QWORD 0;
          (got_fc, s2) = sread QWORD s1;
          fileCount' = conv_value e fc;
          (sm, s3) = sget s2;
          (wc, s4) = sget s3
      in case SizeMode_cast sm of
           None \<Rightarrow> None
         | Some sizeMode' \<Rightarrow>
             Some (a\<lparr>generalPurposeField := of_nat generalPurposeField',
                     fileCount := of_nat fileCount', sizeMode := sizeMode',
                     writeCrc := (wc \<noteq> 0), stream := s4\<rparr>))"

definition writeSignature :: "endian \<Rightarrow> StaticArchive \<Rightarrow> StaticArchive" where
  "writeSignature e a =
     (let s0 = seekp 0 (stream a);
          s1 = swrite STATIC_MAGIC s0;
          s2 = swrite (conv_data e DWORD (unat (generalPurposeField a))) s1;
          s3 = swrite (conv_data e QWORD (unat (fileCount a))) s2;
          s4 = sput (of_nat (SizeMode_value (sizeMode a))) s3;
          s5 = sput (if StaticArchive.writeCrc a then 1 else 0) s4
      in a\<lparr>stream := s5\<rparr>)"

section \<open>static.cpp: the entry header\<close>

text \<open>
  \<open>readHeader\<close>. \<open>std::string name = nameBuffer\<close> builds the string from a C string: the
  bytes up to the first zero byte. The buffer gets no terminator, so the scan runs on into
  memory the function does not own; \<open>mem\<close> stands for what lies after the bytes read. In the
  16-bit case \<open>dataSize\<close> is taken from \<open>ds.value\<close> before \<open>read\<close> fills \<open>ds.data\<close>.
\<close>

definition readHeader ::
  "endian \<Rightarrow> byte list \<Rightarrow> StaticArchive \<Rightarrow> EntryHeader \<times> StaticArchive" where
  "readHeader e mem a =
     (let (c, s1) = sget (stream a);
          ns = (of_int c :: byte);
          (nameBuffer, s2) = sread (unat ns) s1;
          name' = takeWhile (\<lambda>b. b \<noteq> 0) (nameBuffer @ mem);
          (got_crc, s3) = sread DWORD s2;
          crc' = fill (replicate DWORD 0) got_crc;
          (dataSize', s4) =
            (case sizeMode a of
               SizeMode64 \<Rightarrow>
                 (let (got, s) = sread QWORD s3;
                      ds = fill (replicate QWORD 0) got
                  in (conv_value e ds, s))
             | SizeMode32 \<Rightarrow>
                 (let (got, s) = sread DWORD s3;
                      ds = fill (replicate DWORD 0) got
                  in (conv_value e ds, s))
             | SizeMode16 \<Rightarrow>
                 (let ds = replicate WORD 0;
                      v = conv_value e ds;
                      (got, s) = sread WORD s3
                  in (v, s)))
      in (\<lparr>name = name', crc = of_nat (conv_value e crc'), dataSize = of_nat dataSize'\<rparr>,
          a\<lparr>stream := s4\<rparr>))"

text \<open>\<open>writeheader\<close>: the size byte is \<open>(char)name.size()\<close>, the size modulo 256.\<close>

definition writeheader ::
  "endian \<Rightarrow> StaticArchive \<Rightarrow> byte list \<Rightarrow> 32 word \<Rightarrow> 64 word \<Rightarrow> exception + StaticArchive" where
  "writeheader e a nm crc' dataSize' =
     (if length nm > 256 then Inl (InvalidNameSizeException (length nm))
      else
        let s1 = sput (of_nat (length nm)) (stream a);
            s2 = swrite nm s1;
            s3 = swrite (conv_data e DWORD (unat crc')) s2;
            s4 = swrite (conv_data e QWORD (unat dataSize')) s3
        in Inr (a\<lparr>stream := s4\<rparr>))"

section \<open>Handles used as concrete inputs\<close>

text \<open>An open, empty file, and a handle in create mode over a stream.\<close>

definition empty_file :: fstream where
  "empty_file = \<lparr>bytes = [], pos = 0, eofbit = False, failbit = False\<rparr>"

definition handle :: "SizeMode \<Rightarrow> fstream \<Rightarrow> StaticArchive" where
  "handle sm s =
     \<lparr>generalPurposeField = 0, checks = True, stream = s, sizeMode = sm, mode = ModeCreate,
      fileCount = 0, writeCrc = True, closed = False\<rparr>"

text \<open>A handle that counts one entry and has a flag set in the general purpose field.\<close>

definition one_entry :: StaticArchive where
  "one_entry = (handle SizeMode32 empty_file)\<lparr>generalPurposeField := 7, fileCount := 1\<rparr>"

section \<open>The codec of \<open>conv\<close>\<close>

lemma length_le_bytes: "length (le_bytes n v) = n"
  by (induction n arbitrary: v) simp_all

lemma le_value_le_bytes: "le_value (le_bytes n v) = v mod 256 ^ n"
proof (induction n arbitrary: v)
  case 0
  show ?case by simp
next
  case (Suc n)
  have "unat (of_nat (v mod 256) :: byte) = v mod 256"
    by (simp add: unat_of_nat)
  with Suc show ?case
    by (simp add: mod_mult2_eq)
qed

lemma length_conv_data: "length (conv_data e n v) = n"
  by (cases e) (simp_all add: conv_data_def length_le_bytes)

lemma conv_value_conv_data: "conv_value e (conv_data e n v) = v mod 256 ^ n"
  by (cases e) (simp_all add: conv_data_def conv_value_def le_value_le_bytes)

lemma conv_roundtrip32: "of_nat (conv_value e (conv_data e DWORD (unat (w :: 32 word)))) = w"
proof -
  have "unat w < 256 ^ 4" using unsigned_less [of w] by simp
  then show ?thesis by (simp add: conv_value_conv_data DWORD_def)
qed

lemma conv_roundtrip64: "of_nat (conv_value e (conv_data e QWORD (unat (w :: 64 word)))) = w"
proof -
  have "unat w < 256 ^ 8" using unsigned_less [of w] by simp
  then show ?thesis by (simp add: conv_value_conv_data QWORD_def)
qed

section \<open>Reading and writing at a known place of the file\<close>

lemma swrite_at:
  assumes "good s" and "bytes s = pre @ old" and "pos s = length pre"
  shows "swrite bs s = s\<lparr>bytes := pre @ bs @ drop (length bs) old, pos := length pre + length bs\<rparr>"
  using assms by (simp add: swrite_def)

lemma sread_at:
  assumes "good s" and "bytes s = pre @ xs @ post" and "pos s = length pre" and "n = length xs"
  shows "sread n s = (xs, s\<lparr>pos := length pre + length xs\<rparr>)"
  using assms by (simp add: sread_def Let_def)

lemma sget_at:
  assumes "good s" and "bytes s = pre @ x # post" and "pos s = length pre"
  shows "sget s = (uint x, s\<lparr>pos := Suc (length pre)\<rparr>)"
  using assms by (simp add: sget_def)

section \<open>The signature block: what is written and what is loaded\<close>

lemma length_STATIC_MAGIC: "length STATIC_MAGIC = 8"
  by (simp add: STATIC_MAGIC_def)

lemma writeSignature_stream:
  assumes "good (stream a)"
  shows "stream (writeSignature e a) =
           (stream a)\<lparr>bytes := STATIC_MAGIC @ conv_data e DWORD (unat (generalPurposeField a))
                          @ conv_data e QWORD (unat (fileCount a))
                          @ [of_nat (SizeMode_value (sizeMode a)),
                             if StaticArchive.writeCrc a then 1 else 0]
                          @ drop 22 (bytes (stream a)),
                        pos := 22\<rparr>"
proof -
  define gp where "gp = conv_data e DWORD (unat (generalPurposeField a))"
  define fc where "fc = conv_data e QWORD (unat (fileCount a))"
  define sm :: byte where "sm = of_nat (SizeMode_value (sizeMode a))"
  define wc :: byte where "wc = (if StaticArchive.writeCrc a then 1 else 0)"
  define old where "old = bytes (stream a)"
  have lgp: "length gp = 4" and lfc: "length fc = 8"
    by (simp_all add: gp_def fc_def length_conv_data DWORD_def QWORD_def)
  define s0 where "s0 = seekp 0 (stream a)"
  have g0: "good s0" and b0: "bytes s0 = [] @ old" and p0: "pos s0 = length ([] :: byte list)"
    using assms by (simp_all add: s0_def seekp_def good_def old_def)
  define s1 where "s1 = swrite STATIC_MAGIC s0"
  have e1: "s1 = s0\<lparr>bytes := STATIC_MAGIC @ drop 8 old, pos := 8\<rparr>"
    unfolding s1_def using swrite_at [OF g0 b0 p0, of STATIC_MAGIC]
    by (simp add: length_STATIC_MAGIC)
  have g1: "good s1" and b1: "bytes s1 = STATIC_MAGIC @ drop 8 old"
    and p1: "pos s1 = length STATIC_MAGIC"
    using g0 by (simp_all add: e1 good_def length_STATIC_MAGIC)
  define s2 where "s2 = swrite gp s1"
  have e2: "s2 = s0\<lparr>bytes := STATIC_MAGIC @ gp @ drop 12 old, pos := 12\<rparr>"
    unfolding s2_def using swrite_at [OF g1 b1 p1, of gp]
    by (simp add: length_STATIC_MAGIC lgp e1)
  have g2: "good s2" and b2: "bytes s2 = (STATIC_MAGIC @ gp) @ drop 12 old"
    and p2: "pos s2 = length (STATIC_MAGIC @ gp)"
    using g0 by (simp_all add: e2 good_def length_STATIC_MAGIC lgp)
  define s3 where "s3 = swrite fc s2"
  have e3: "s3 = s0\<lparr>bytes := STATIC_MAGIC @ gp @ fc @ drop 20 old, pos := 20\<rparr>"
    unfolding s3_def using swrite_at [OF g2 b2 p2, of fc]
    by (simp add: length_STATIC_MAGIC lgp lfc e2)
  have g3: "good s3" and b3: "bytes s3 = (STATIC_MAGIC @ gp @ fc) @ drop 20 old"
    and p3: "pos s3 = length (STATIC_MAGIC @ gp @ fc)"
    using g0 by (simp_all add: e3 good_def length_STATIC_MAGIC lgp lfc)
  define s4 where "s4 = sput sm s3"
  have e4: "s4 = s0\<lparr>bytes := STATIC_MAGIC @ gp @ fc @ [sm] @ drop 21 old, pos := 21\<rparr>"
    unfolding s4_def sput_def using swrite_at [OF g3 b3 p3, of "[sm]"]
    by (simp add: length_STATIC_MAGIC lgp lfc e3)
  have g4: "good s4" and b4: "bytes s4 = (STATIC_MAGIC @ gp @ fc @ [sm]) @ drop 21 old"
    and p4: "pos s4 = length (STATIC_MAGIC @ gp @ fc @ [sm])"
    using g0 by (simp_all add: e4 good_def length_STATIC_MAGIC lgp lfc)
  define s5 where "s5 = sput wc s4"
  have e5: "s5 = s0\<lparr>bytes := STATIC_MAGIC @ gp @ fc @ [sm, wc] @ drop 22 old, pos := 22\<rparr>"
    unfolding s5_def sput_def using swrite_at [OF g4 b4 p4, of "[wc]"]
    by (simp add: length_STATIC_MAGIC lgp lfc e4)
  have "stream (writeSignature e a) = s5"
    by (simp add: writeSignature_def Let_def s5_def s4_def s3_def s2_def s1_def s0_def
        gp_def fc_def sm_def wc_def)
  also have "s5 = (stream a)\<lparr>bytes := STATIC_MAGIC @ gp @ fc @ [sm, wc] @ drop 22 old, pos := 22\<rparr>"
    using assms by (simp add: e5 s0_def seekp_def good_def)
  finally show ?thesis
    by (simp add: gp_def fc_def sm_def wc_def old_def)
qed

lemma writeSignature_members:
  "generalPurposeField (writeSignature e a) = generalPurposeField a \<and>
   fileCount (writeSignature e a) = fileCount a \<and>
   sizeMode (writeSignature e a) = sizeMode a \<and>
   StaticArchive.writeCrc (writeSignature e a) = StaticArchive.writeCrc a"
  by (simp add: writeSignature_def Let_def)

lemma SizeMode_cast_value: "SizeMode_cast (uint (of_nat (SizeMode_value m) :: byte)) = Some m"
  by (cases m) (simp_all add: SizeMode_cast_def)

lemma loadSignature_fileCount: "loadSignature e a = Some a' \<Longrightarrow> fileCount a' = 0"
  by (cases e) (auto simp: loadSignature_def Let_def conv_value_def QWORD_def eval_nat_numeral split: prod.splits option.splits)

text \<open>
  On every good stream the block that \<open>writeSignature\<close> wrote loads again; three members
  come back as they were, and \<open>fileCount\<close> comes back as 0.
\<close>

lemma load_after_write:
  assumes "good (stream a)"
  shows "\<exists>a'. loadSignature e (writeSignature e a) = Some a' \<and>
            generalPurposeField a' = generalPurposeField a \<and>
            sizeMode a' = sizeMode a \<and>
            StaticArchive.writeCrc a' = StaticArchive.writeCrc a \<and>
            fileCount a' = 0"
proof -
  define gp where "gp = conv_data e DWORD (unat (generalPurposeField a))"
  define fc where "fc = conv_data e QWORD (unat (fileCount a))"
  define sm :: byte where "sm = of_nat (SizeMode_value (sizeMode a))"
  define wc :: byte where "wc = (if StaticArchive.writeCrc a then 1 else 0)"
  define rest where "rest = drop 22 (bytes (stream a))"
  define s where "s = (stream a)\<lparr>bytes := STATIC_MAGIC @ gp @ fc @ [sm, wc] @ rest, pos := 22\<rparr>"
  have lgp: "length gp = DWORD" and lfc: "length fc = QWORD"
    by (simp_all add: gp_def fc_def length_conv_data)
  have st: "stream (writeSignature e a) = s"
    using writeSignature_stream [OF assms, of e]
    by (simp add: s_def gp_def fc_def sm_def wc_def rest_def)
  define s0 where "s0 = seekg QWORD s"
  have g0: "good s0" and b0: "bytes s0 = STATIC_MAGIC @ gp @ (fc @ [sm, wc] @ rest)"
    and p0: "pos s0 = length STATIC_MAGIC"
    using assms by (simp_all add: s0_def s_def seekg_def good_def QWORD_def length_STATIC_MAGIC)
  define s1 where "s1 = s0\<lparr>pos := length STATIC_MAGIC + length gp\<rparr>"
  have r1: "sread DWORD s0 = (gp, s1)"
    unfolding s1_def using g0 b0 p0 by (rule sread_at) (simp add: lgp)
  have g1: "good s1" and b1: "bytes s1 = (STATIC_MAGIC @ gp) @ fc @ ([sm, wc] @ rest)"
    and p1: "pos s1 = length (STATIC_MAGIC @ gp)"
    using g0 b0 by (simp_all add: s1_def good_def)
  define s2 where "s2 = s1\<lparr>pos := length (STATIC_MAGIC @ gp) + length fc\<rparr>"
  have r2: "sread QWORD s1 = (fc, s2)"
    unfolding s2_def using g1 b1 p1 by (rule sread_at) (simp add: lfc)
  have g2: "good s2" and b2: "bytes s2 = (STATIC_MAGIC @ gp @ fc) @ sm # ([wc] @ rest)"
    and p2: "pos s2 = length (STATIC_MAGIC @ gp @ fc)"
    using g1 b1 by (simp_all add: s2_def good_def)
  define s3 where "s3 = s2\<lparr>pos := Suc (length (STATIC_MAGIC @ gp @ fc))\<rparr>"
  have r3: "sget s2 = (uint sm, s3)"
    unfolding s3_def using g2 b2 p2 by (rule sget_at)
  have g3: "good s3" and b3: "bytes s3 = (STATIC_MAGIC @ gp @ fc @ [sm]) @ wc # rest"
    and p3: "pos s3 = length (STATIC_MAGIC @ gp @ fc @ [sm])"
    using g2 b2 by (simp_all add: s3_def good_def)
  obtain s4 where r4: "sget s3 = (uint wc, s4)"
    using sget_at [OF g3 b3 p3] by blast
  have fillgp: "fill (replicate DWORD 0) gp = gp"
    by (simp add: fill_def lgp)
  have gpv: "of_nat (conv_value e gp) = generalPurposeField a"
    unfolding gp_def by (rule conv_roundtrip32)
  have smv: "SizeMode_cast (uint sm) = Some (sizeMode a)"
    unfolding sm_def by (rule SizeMode_cast_value)
  have wcv: "(uint wc \<noteq> 0) = StaticArchive.writeCrc a"
    by (simp add: wc_def)
  have fcv: "(of_nat (conv_value e (replicate QWORD 0)) :: 64 word) = 0"
    by (cases e) (simp_all add: conv_value_def QWORD_def eval_nat_numeral)
  have "loadSignature e (writeSignature e a) =
          Some ((writeSignature e a)\<lparr>generalPurposeField := generalPurposeField a,
                  fileCount := 0, sizeMode := sizeMode a,
                  writeCrc := StaticArchive.writeCrc a, stream := s4\<rparr>)"
    unfolding loadSignature_def st s0_def [symmetric]
    by (simp add: Let_def r1 r2 r3 r4 fillgp gpv smv wcv fcv)
  then show ?thesis by simp
qed

section \<open>The signature check, the entry header, append and the constructors\<close>

lemma strncmp_eq_0:
  "n \<le> length xs \<Longrightarrow> n \<le> length ys \<Longrightarrow> 0 \<notin> set (take n xs) \<Longrightarrow>
   (strncmp xs ys n = 0) = (take n xs = take n ys)"
proof (induction xs ys n rule: strncmp.induct)
  case (1 a as b bs n)
  then show ?case by (auto simp: word_uint_eq_iff)
qed simp_all

lemma checkSignature_result:
  assumes "\<not> failbit (stream a)" and "8 \<le> length (bytes (stream a))"
  shows "fst (checkSignature buffer0 a) = (take 8 (bytes (stream a)) \<noteq> STATIC_MAGIC)"
proof -
  define s0 where "s0 = seekg 0 (stream a)"
  have g0: "good s0" and b0: "bytes s0 = [] @ take 8 (bytes (stream a)) @ drop 8 (bytes (stream a))"
    and p0: "pos s0 = length ([] :: byte list)"
    using assms by (simp_all add: s0_def seekg_def good_def)
  have r: "sread QWORD s0 = (take 8 (bytes (stream a)), s0\<lparr>pos := length ([] :: byte list) + length (take 8 (bytes (stream a)))\<rparr>)"
    using g0 b0 p0 by (rule sread_at) (use assms in \<open>simp add: QWORD_def\<close>)
  have f: "fill (map buffer0 [0..<QWORD]) (take 8 (bytes (stream a))) = take 8 (bytes (stream a))"
    using assms by (simp add: fill_def QWORD_def)
  have "(strncmp STATIC_MAGIC (take 8 (bytes (stream a))) 8 = 0)
          = (take 8 STATIC_MAGIC = take 8 (take 8 (bytes (stream a))))"
    using assms by (intro strncmp_eq_0) (simp_all add: STATIC_MAGIC_def)
  then have "(strncmp STATIC_MAGIC (take 8 (bytes (stream a))) QWORD = 0)
          = (take 8 (bytes (stream a)) = STATIC_MAGIC)"
    by (auto simp: QWORD_def length_STATIC_MAGIC)
  then show ?thesis
    unfolding checkSignature_def s0_def [symmetric]
    by (simp add: Let_def r f)
qed

lemma writeheader_throws: "(\<exists>x. writeheader e a nm c d = Inl x) = (256 < length nm)"
  by (simp add: writeheader_def Let_def)

lemma writeheader_bytes:
  assumes "good (stream a)" and "pos (stream a) = length (bytes (stream a))"
    and "length nm \<le> 256"
  shows "\<exists>a'. writeheader e a nm c d = Inr a' \<and>
           bytes (stream a') = bytes (stream a) @ [of_nat (length nm)] @ nm
              @ conv_data e DWORD (unat c) @ conv_data e QWORD (unat d)"
  using assms
  by (simp add: writeheader_def Let_def sput_def swrite_def good_def)

lemma readHeader_name_no_zero: "0 \<notin> set (EntryHeader.name (fst (readHeader e mem a)))"
proof -
  have "0 \<notin> set (takeWhile (\<lambda>b. b \<noteq> 0) xs)" for xs :: "byte list"
    by (auto dest: set_takeWhileD)
  then show ?thesis
    by (simp add: readHeader_def Let_def split: prod.splits)
qed

lemma readHeader_dataSize16:
  "sizeMode a = SizeMode16 \<Longrightarrow> dataSize (fst (readHeader e mem a)) = 0"
  by (cases e) (simp_all add: readHeader_def Let_def conv_value_def WORD_def eval_nat_numeral split: prod.splits)

lemma appends_nothing: "appends a xs = a"
  by (induction a xs rule: appends.induct) (simp_all add: append_def)

lemma constructors_fileCount:
  "fileCount (StaticArchive_path fs raw p) = 0"
  "fileCount (StaticArchive_path_mode fs raw p m) = 0"
  "fileCount (StaticArchive_path_mode_size fs raw p m sm) = 0"
  "fileCount (StaticArchive_path_flags fs raw p m sm flags) = 0"
  "fileCount (StaticArchive_stream_flags raw s m sm flags) = 0"
  by (simp_all add: StaticArchive_path_def StaticArchive_path_mode_def StaticArchive_path_mode_size_def
      StaticArchive_path_flags_def StaticArchive_stream_flags_def setup_handle_def member_init_def Let_def)

lemma flags_ignored:
  "StaticArchive.writeCrc (StaticArchive_stream_flags raw s m sm flags) = False"
  "StaticArchive.checks (StaticArchive_stream_flags raw s m sm flags) = False"
  "StaticArchive.writeCrc (StaticArchive_path_flags fs raw p m sm flags) = False"
  "StaticArchive.checks (StaticArchive_path_flags fs raw p m sm flags) = False"
  by (simp_all add: StaticArchive_stream_flags_def StaticArchive_path_flags_def Flags_init_def
      Let_def)

section \<open>The claims\<close>

text \<open>
  C1: for a name of 1 to 255 bytes and any payload, \<open>append\<close> and then \<open>read\<close> on the
  \<open>FileInfo\<close> that \<open>append\<close> returned yields the payload. The code at the name \<open>a\<close> and the
  one-byte payload \<open>h\<close>, on a fresh archive: \<open>append\<close> writes nothing and returns no
  \<open>FileInfo\<close>, and no \<open>FileInfo\<close> at all makes \<open>read\<close> yield the payload afterwards.
\<close>

theorem append_then_read_loses_payload:
  "append (handle SizeMode64 empty_file) [0x61] [0x68] = (None, handle SizeMode64 empty_file) \<and>
   (\<forall>checksum file.
      read checksum (snd (append (handle SizeMode64 empty_file) [0x61] [0x68])) file
        \<noteq> Inr [0x68])"
  by (simp add: append_def read_def handle_def empty_file_def Let_def)

text \<open>
  C2: \<open>writeSignature\<close> and then \<open>loadSignature\<close> reproduces \<open>generalPurposeField\<close>,
  \<open>fileCount\<close>, \<open>sizeMode\<close> and \<open>writeCrc\<close>. The code at a handle whose \<open>fileCount\<close> is 1, in
  either byte order: the load succeeds, three members come back, and \<open>fileCount\<close> is 0.
\<close>

theorem signature_roundtrip_drops_fileCount:
  "fileCount one_entry = 1 \<and>
   map_option fileCount (loadSignature e (writeSignature e one_entry)) = Some 0 \<and>
   map_option generalPurposeField (loadSignature e (writeSignature e one_entry)) = Some 7 \<and>
   map_option sizeMode (loadSignature e (writeSignature e one_entry)) = Some SizeMode32 \<and>
   map_option StaticArchive.writeCrc (loadSignature e (writeSignature e one_entry)) = Some True"
  by (induct e; code_simp)

text \<open>
  C3: loading a signature fails with \<open>InvalidSignature\<close> exactly when the first 8 bytes differ
  from the magic constant; the check reports the archive as valid if and only if the magic
  bytes compare equal. The code on a file that starts with the magic and on a file of 22
  zero bytes: \<open>checkSignature\<close> returns false on the first and true on the second, and
  \<open>loadSignature\<close> loads the second without any failure.
\<close>

theorem checkSignature_polarity:
  "fst (checkSignature buffer0
          (handle SizeMode64 (empty_file\<lparr>bytes := STATIC_MAGIC @ replicate 14 0\<rparr>))) = False \<and>
   fst (checkSignature buffer0
          (handle SizeMode64 (empty_file\<lparr>bytes := replicate 22 0\<rparr>))) = True \<and>
   map_option sizeMode
     (loadSignature e (handle SizeMode64 (empty_file\<lparr>bytes := replicate 22 0\<rparr>)))
     = Some SizeMode16"
  by (induct e; code_simp)

text \<open>
  C4: \<open>writeheader\<close> encodes \<open>dataSize\<close> in the width of the size mode, 2, 4 or 8 bytes, after
  the length byte, the name and the 4-byte crc. The code at the name \<open>a\<close>, crc 0 and
  \<open>dataSize\<close> 5 on an empty file: 14 bytes in 16-bit and in 32-bit mode, the last 8 of them
  the \<open>dataSize\<close>.
\<close>

theorem writeheader_dataSize_width:
  "writeheader LittleEndian (handle SizeMode16 empty_file) [0x61] 0 5 =
     Inr (handle SizeMode16
            (empty_file\<lparr>bytes := [1, 0x61, 0, 0, 0, 0, 5, 0, 0, 0, 0, 0, 0, 0], pos := 14\<rparr>)) \<and>
   writeheader BigEndian (handle SizeMode16 empty_file) [0x61] 0 5 =
     Inr (handle SizeMode16
            (empty_file\<lparr>bytes := [1, 0x61, 0, 0, 0, 0, 0, 0, 0, 0, 0, 0, 0, 5], pos := 14\<rparr>)) \<and>
   writeheader LittleEndian (handle SizeMode32 empty_file) [0x61] 0 5 =
     Inr (handle SizeMode32
            (empty_file\<lparr>bytes := [1, 0x61, 0, 0, 0, 0, 5, 0, 0, 0, 0, 0, 0, 0], pos := 14\<rparr>))"
  by code_simp

text \<open>
  C5: in every size mode the \<open>dataSize\<close> that \<open>readHeader\<close> returns is the integer stored in
  the \<open>dataSize\<close> field of the header it read. The code on a 16-bit archive whose header
  stores the name \<open>a\<close>, crc 0 and the two \<open>dataSize\<close> bytes 5 and 0: the result is 0 in either
  byte order, and the two bytes are consumed. The same entry with a 4-byte field in 32-bit
  mode gives 5.
\<close>

theorem readHeader_dataSize_16bit:
  "dataSize (fst (readHeader e mem
      (handle SizeMode16 (empty_file\<lparr>bytes := [1, 0x61, 0, 0, 0, 0, 5, 0]\<rparr>)))) = 0 \<and>
   pos (stream (snd (readHeader e mem
      (handle SizeMode16 (empty_file\<lparr>bytes := [1, 0x61, 0, 0, 0, 0, 5, 0]\<rparr>))))) = 8 \<and>
   dataSize (fst (readHeader LittleEndian mem
      (handle SizeMode32 (empty_file\<lparr>bytes := [1, 0x61, 0, 0, 0, 0, 5, 0, 0, 0]\<rparr>)))) = 5"
  by (induct e; code_simp)

text \<open>
  C6: \<open>writeheader\<close> fails for every name longer than 255 bytes and accepts every shorter
  one; a name of 256 bytes is rejected. The code at a name of 256 bytes: no exception, the
  length byte written is 0 and the 256 bytes follow it; the first name it rejects has 257
  bytes.
\<close>

theorem writeheader_accepts_256:
  "(\<exists>a'. writeheader e (handle SizeMode64 empty_file) (replicate 256 0x61) 0 0 = Inr a' \<and>
         take 2 (bytes (stream a')) = [0, 0x61] \<and> length (bytes (stream a')) = 269) \<and>
   writeheader e (handle SizeMode64 empty_file) (replicate 257 0x61) 0 0 =
     Inl (InvalidNameSizeException 257)"
  by (simp add: writeheader_def handle_def empty_file_def sput_def swrite_def good_def Let_def
      length_conv_data DWORD_def QWORD_def)

text \<open>
  C7: after N successful calls of \<open>append\<close> the accessor \<open>getFileCount\<close> returns N, also after
  closing and reopening. The code at N = 1 on a fresh archive: the count is 0 before and
  after the call, and every handle that the path constructor builds counts 0 entries.
\<close>

theorem fileCount_after_append:
  "getFileCount (handle SizeMode64 empty_file) = 0 \<and>
   getFileCount (appends (handle SizeMode64 empty_file) [([0x61], [0x68])]) = 0 \<and>
   getFileCount (StaticArchive_path_mode fs raw path ModeAppend) = 0"
  by (simp add: getFileCount_def append_def handle_def StaticArchive_path_mode_def
      setup_handle_def member_init_def)

text \<open>
  C8: \<open>readHeader\<close> returns as name exactly the n bytes after the length byte n; a zero byte
  inside a name is preserved. The code on a 64-bit archive whose header stores the three
  name bytes \<open>a\<close>, 0, \<open>b\<close>: the name returned is the single byte \<open>a\<close>, whatever lies in memory
  after the buffer.
\<close>

theorem readHeader_name_stops_at_zero:
  "EntryHeader.name (fst (readHeader e mem
      (handle SizeMode64
         (empty_file\<lparr>bytes := [3, 0x61, 0, 0x62, 0, 0, 0, 0, 0, 0, 0, 0, 0, 0, 0, 0]\<rparr>))))
     = [0x61]"
  by (simp add: readHeader_def handle_def empty_file_def sget_def sread_def good_def Let_def
      split: prod.splits)

text \<open>
  C10: the flag-taking constructors set \<open>writeCrc\<close> from bit 3 of the flags byte and \<open>checks\<close>
  from bit 4. The code at the flags bytes 0b00001000, 0b00010000 and 0b11111111, for both
  constructors: \<open>writeCrc\<close> and \<open>checks\<close> are false each time.
\<close>

theorem flags_constructor_fields:
  "StaticArchive.writeCrc (StaticArchive_stream_flags raw s m sm 0x08) = False \<and>
   StaticArchive.checks (StaticArchive_stream_flags raw s m sm 0x10) = False \<and>
   StaticArchive.writeCrc (StaticArchive_path_flags fs raw p m sm 0x08) = False \<and>
   StaticArchive.checks (StaticArchive_path_flags fs raw p m sm 0x10) = False \<and>
   StaticArchive.writeCrc (StaticArchive_stream_flags raw s m sm 0xFF) = False \<and>
   StaticArchive.checks (StaticArchive_stream_flags raw s m sm 0xFF) = False"
  by (simp add: StaticArchive_stream_flags_def StaticArchive_path_flags_def Flags_init_def
      Let_def)

text \<open>
  C9: \<open>getMaxFilesize\<close> returns 0xFFFF when the size mode is 16-bit, 0xFFFFFFFF when it is
  32-bit and 0xFFFFFFFFFFFFFFFF when it is 64-bit, whatever the rest of the handle holds.
\<close>

theorem getMaxFilesize_per_mode:
  "getMaxFilesize (a\<lparr>sizeMode := SizeMode16\<rparr>) = 0xFFFF \<and>
   getMaxFilesize (a\<lparr>sizeMode := SizeMode32\<rparr>) = 0xFFFFFFFF \<and>
   getMaxFilesize (a\<lparr>sizeMode := SizeMode64\<rparr>) = 0xFFFFFFFFFFFFFFFF \<and>
   unat (getMaxFilesize (a\<lparr>sizeMode := SizeMode16\<rparr>)) = 2 ^ 16 - 1 \<and>
   unat (getMaxFilesize (a\<lparr>sizeMode := SizeMode32\<rparr>)) = 2 ^ 32 - 1 \<and>
   unat (getMaxFilesize (a\<lparr>sizeMode := SizeMode64\<rparr>)) = 2 ^ 64 - 1"
  by (simp add: getMaxFilesize_def)

end
